theory Spec2Isabelle
  imports Complex_Main
begin

section \<open>The calculator of project.py\<close>

text \<open>
  The program is a Tk calculator. Its core is \<open>safe_eval\<close> (a per-character screen
  followed by a call of Python's built-in \<open>eval\<close>) and the handler
  \<open>ModernCalculator.on_button_click\<close> with its helper \<open>toggle_sign\<close>, which edit the
  expression buffer and the two display lines.

  Python strings are modelled as \<^typ>\<open>string\<close>; a \<^typ>\<open>char\<close> stands for the code point
  of the same number, so the model covers the strings over the code points 0 to 255.
  The built-ins of the Python runtime that the program calls on values (\<open>eval\<close>, true
  division, \<open>isinstance(_, float)\<close>, \<open>float.is_integer\<close>, \<open>int\<close>, \<open>str\<close>) are not code
  of the program: the model takes them as the fields of a record \<open>runtime\<close>, and every
  general theorem holds for every runtime.
\<close>

subsection \<open>Character classes of the runtime\<close>

text \<open>\<open>str.isalpha\<close> on one code point below 256: the ASCII letters and the Latin-1 letters.\<close>

definition isalpha :: "char \<Rightarrow> bool" where
  "isalpha ch =
     (let n = (of_char ch :: nat)
      in (65 \<le> n \<and> n \<le> 90) \<or> (97 \<le> n \<and> n \<le> 122) \<or> n = 170 \<or> n = 181 \<or> n = 186 \<or>
         (192 \<le> n \<and> n \<le> 214) \<or> (216 \<le> n \<and> n \<le> 246) \<or> (248 \<le> n \<and> n \<le> 255))"

text \<open>\<open>str.isspace\<close> on one code point below 256; \<open>str.strip()\<close> removes the same characters.\<close>

definition isspace :: "char \<Rightarrow> bool" where
  "isspace ch =
     (ch \<in> set [CHR 0x09, CHR 0x0A, CHR 0x0B, CHR 0x0C, CHR 0x0D,
                 CHR 0x1C, CHR 0x1D, CHR 0x1E, CHR 0x1F, CHR 0x20, CHR 0x85, CHR 0xA0])"

text \<open>The class \<open>\d\<close> of the \<open>re\<close> module on code points below 256: the ten ASCII digits.\<close>

definition isdigit :: "char \<Rightarrow> bool" where
  "isdigit ch = (ch \<in> set ''0123456789'')"

definition strip :: "string \<Rightarrow> string" where
  "strip s = rev (dropWhile isspace (rev (dropWhile isspace s)))"

subsection \<open>Exceptions and the runtime\<close>

datatype py_exception =
    ValueError string
  | SyntaxError
  | NameError
  | TypeError
  | ZeroDivisionError
  | OverflowError
  | OtherError string

text \<open>The objects stored in \<open>SAFE_FUNCTIONS\<close>.\<close>

datatype py_object =
    math_sqrt | math_sin | math_cos | math_tan | math_pi | math_e | builtin_pow | builtin_abs

text \<open>
  \<open>py_eval expr globals locals\<close> is \<open>eval(expr, globals, locals)\<close>;
  \<open>py_truediv v n\<close> is \<open>v / n\<close> for the integer literal \<open>n\<close>;
  \<open>py_isinstance_float v\<close> is \<open>isinstance(v, float)\<close>; \<open>py_is_integer v\<close> is \<open>v.is_integer()\<close>;
  \<open>py_int v\<close> is \<open>int(v)\<close> (called on whole-number floats only) and \<open>py_str v\<close> is \<open>str(v)\<close>.
  \<open>eval\<close> and \<open>/\<close> may raise. \<open>str\<close> may raise as well: CPython refuses to convert an
  integer of more than 4300 digits with a \<open>ValueError\<close>. \<open>py_str_raises v\<close> is the
  exception that \<open>str(v)\<close> raises, \<open>None\<close> when \<open>str(v)\<close> returns, and \<open>py_str v\<close> is
  the string it returns then. \<open>str\<close> of a float never raises.
\<close>

record 'v runtime =
  py_eval :: "string \<Rightarrow> (string \<rightharpoonup> py_object) \<Rightarrow> (string \<rightharpoonup> py_object) \<Rightarrow> py_exception + 'v"
  py_truediv :: "'v \<Rightarrow> int \<Rightarrow> py_exception + 'v"
  py_isinstance_float :: "'v \<Rightarrow> bool"
  py_is_integer :: "'v \<Rightarrow> bool"
  py_int :: "'v \<Rightarrow> 'v"
  py_str :: "'v \<Rightarrow> string"
  py_str_raises :: "'v \<Rightarrow> py_exception option"

subsection \<open>safe_eval\<close>

definition SAFE_FUNCTIONS :: "(string \<times> py_object) list" where
  "SAFE_FUNCTIONS =
     [(''sqrt'', math_sqrt), (''sin'', math_sin), (''cos'', math_cos), (''tan'', math_tan),
      (''pi'', math_pi), (''e'', math_e), (''pow'', builtin_pow), (''abs'', builtin_abs)]"

definition allowed_chars :: string where
  "allowed_chars = ''0123456789+-*/(). %e''"

text \<open>The \<open>for ch in expr\<close> loop: \<open>None\<close> when it runs to its end, the exception it raises otherwise.\<close>

fun screen :: "string \<Rightarrow> py_exception option" where
  "screen [] = None"
| "screen (ch # rest) =
     (if isalpha ch \<and> ch \<notin> set ''sincotapewabsr''
      then Some (ValueError ''Invalid character found in expression'')
      else if isalpha ch \<or> isspace ch then screen rest
      else if ch \<notin> set allowed_chars then Some (ValueError (''Invalid character: '' @ [ch]))
      else screen rest)"

definition safe_eval :: "'v runtime \<Rightarrow> string \<Rightarrow> py_exception + 'v" where
  "safe_eval rt expr =
     (case screen expr of
        Some err \<Rightarrow> Inl err
      | None \<Rightarrow> py_eval rt expr (map_of SAFE_FUNCTIONS) Map.empty)"

subsection \<open>The calculator state and toggle_sign\<close>

record ModernCalculator =
  expression :: string
  expr_var :: string
  result_var :: string

text \<open>
  The pattern \<open>(-?\d*\.?\d+)$\<close>. \<open>unsigned_literal t\<close>: the whole of \<open>t\<close> matches
  \<open>\d*\.?\d+\<close>; \<open>literal t\<close>: the whole of \<open>t\<close> matches \<open>-?\d*\.?\d+\<close>.
\<close>

definition unsigned_literal :: "string \<Rightarrow> bool" where
  "unsigned_literal t =
     (let r = dropWhile isdigit t
      in if r = [] then t \<noteq> []
         else hd r = CHR ''.'' \<and> tl r \<noteq> [] \<and> list_all isdigit (tl r))"

fun literal :: "string \<Rightarrow> bool" where
  "literal [] = False"
| "literal (c # r) = (if c = CHR ''-'' then unsigned_literal r else unsigned_literal (c # r))"

text \<open>\<open>re.search\<close> tries the start positions from the left: the first one whose rest matches.\<close>

fun find_start :: "string \<Rightarrow> nat option" where
  "find_start [] = None"
| "find_start (c # r) =
     (if literal (c # r) then Some 0 else map_option Suc (find_start r))"

text \<open>
  \<open>$\<close> matches at the end of the string and before a newline that ends the string. The
  pattern matches no newline, so on a string ending in a newline the match ends before it.
  The result is \<open>(m.start(1), m.group(1))\<close>.
\<close>

definition re_search :: "string \<Rightarrow> (nat \<times> string) option" where
  "re_search s =
     (let body = (if s \<noteq> [] \<and> last s = CHR 0x0A then butlast s else s)
      in map_option (\<lambda>start. (start, drop start body)) (find_start body))"

definition toggle_sign :: "ModernCalculator \<Rightarrow> ModernCalculator" where
  "toggle_sign self =
     (case re_search (expression self) of
        None \<Rightarrow> self
      | Some (start, num) \<Rightarrow>
          (let new = (if take 1 num = ''-'' then drop 1 num else ''-'' @ num);
               e = take start (expression self) @ new
           in self\<lparr>expression := e, expr_var := e\<rparr>))"

text \<open>What \<open>toggle_sign\<close> does to the buffer, as a function of the buffer alone.\<close>

definition toggle_text :: "string \<Rightarrow> string" where
  "toggle_text e =
     (case re_search e of
        None \<Rightarrow> e
      | Some (start, num) \<Rightarrow>
          take start e @ (if take 1 num = ''-'' then drop 1 num else ''-'' @ num))"

subsection \<open>on_button_click\<close>

text \<open>
  The two \<open>print\<close> calls of the handlers write to the console only and are left out. No
  branch below raises outside the inner \<open>try\<close> blocks, so the outer \<open>except\<close> is never
  entered.

  In the \<open>=\<close> branch \<open>str(result)\<close> is inside the \<open>try\<close>: when it raises, the
  \<open>except\<close> path is taken before any of the three assignments. The integer that \<open>int\<close>
  makes of a whole-number float has at most 309 digits, so \<open>str\<close> can raise only on a
  value that was not converted. In the \<open>%\<close> branch \<open>str\<close> is applied to the quotient, a
  float (or complex number), and does not raise.
\<close>

definition on_button_click :: "'v runtime \<Rightarrow> string \<Rightarrow> ModernCalculator \<Rightarrow> ModernCalculator" where
  "on_button_click rt key self =
     (if key = ''AC'' then self\<lparr>expression := [], result_var := [], expr_var := []\<rparr>
      else if key = ''C'' then
        (let e = butlast (expression self) in self\<lparr>expression := e, expr_var := e\<rparr>)
      else if key = ''+/-'' then toggle_sign self
      else if key = ''%'' then
        (if strip (expression self) = [] then self
         else case safe_eval rt (expression self) of
                Inl err \<Rightarrow> self\<lparr>result_var := ''Error''\<rparr>
              | Inr val \<Rightarrow>
                  (case py_truediv rt val 100 of
                     Inl err \<Rightarrow> self\<lparr>result_var := ''Error''\<rparr>
                   | Inr val' \<Rightarrow>
                       (let e = py_str rt val'
                        in self\<lparr>expression := e, expr_var := e, result_var := e\<rparr>)))
      else if key = ''='' then
        (if strip (expression self) = [] then self
         else case safe_eval rt (expression self) of
                Inl err \<Rightarrow> self\<lparr>result_var := ''Error'', expression := []\<rparr>
              | Inr result \<Rightarrow>
                  (let whole = (py_isinstance_float rt result \<and> py_is_integer rt result);
                       result' = (if whole then py_int rt result else result)
                   in case (if whole then None else py_str_raises rt result') of
                        Some err \<Rightarrow> self\<lparr>result_var := ''Error'', expression := []\<rparr>
                      | None \<Rightarrow>
                          self\<lparr>result_var := py_str rt result',
                               expr_var := expression self @ '' ='',
                               expression := py_str rt result'\<rparr>))
      else (let e = expression self @ key in self\<lparr>expression := e, expr_var := e\<rparr>))"


subsection \<open>When two sign toggles give the buffer back\<close>

text \<open>
  The condition under which \<open>toggle_sign\<close> applied twice restores the buffer: either no
  trailing literal is found, or the buffer does not end in a newline and the literal found
  is unsigned, or its minus sign is the first character of the buffer, or the character
  before the minus sign is no digit, no minus sign, and a dot only when the literal has a
  dot of its own.
\<close>

definition toggle_sign_reversible :: "string \<Rightarrow> bool" where
  "toggle_sign_reversible e =
     (case re_search e of
        None \<Rightarrow> True
      | Some (start, num) \<Rightarrow>
          (if e \<noteq> [] \<and> last e = CHR 0x0A then False
           else if take 1 num \<noteq> ''-'' then True
           else if start = 0 then True
           else (let c = e ! (start - 1)
                 in if isdigit c \<or> c = CHR ''-'' then False
                    else if c = CHR ''.'' then CHR ''.'' \<in> set num
                    else True)))"

subsection \<open>The character sets of the specification\<close>

text \<open>
  The alphabet the specification gives for the screening: the digits, \<open>+ - * / ( ) .\<close>,
  the space, \<open>%\<close>, and the letters of \<open>sqrt, sin, cos, tan, pi, e, pow, abs\<close>.
\<close>

definition spec_alphabet :: string where
  "spec_alphabet = ''0123456789+-*/(). %sqrtincoapewb''"

text \<open>
  The characters that the loop of \<open>safe_eval\<close> lets through by its own tests: \<open>\d\<close>, the
  operators and brackets of \<open>allowed_chars\<close>, every character of \<open>str.isspace\<close>, and the
  letters of \<open>'sincotapewabsr'\<close>.
\<close>

definition screened_ok :: "char \<Rightarrow> bool" where
  "screened_ok ch =
     (isdigit ch \<or> ch \<in> set ''+-*/().%'' \<or> isspace ch \<or> ch \<in> set ''sincotapewabsr'')"

text \<open>The string ends in \<open>.0\<close>, as the text of a small whole-number float does.\<close>

definition ends_with_dot_zero :: "string \<Rightarrow> bool" where
  "ends_with_dot_zero s = (2 \<le> length s \<and> drop (length s - 2) s = ''.0'')"

subsection \<open>Responses of CPython at the inputs used as examples\<close>

text \<open>
  A runtime for the closed examples below. It lists what CPython answers at a few inputs
  and answers \<open>OtherError ''not listed''\<close> elsewhere. Its floats are the three doubles
  0.5, 2.0 and 1e16; its other values are the integers, \<open>None\<close> and \<open>Ellipsis\<close> (the
  value of the expression \<open>...\<close>). The program calls
  \<open>is_integer\<close> and \<open>int\<close> on floats only; on the other values the two functions below
  are never reached.
\<close>

datatype sample_float = Float_0_5 | Float_2_0 | Float_1e16

datatype pyval = PyInt int | PyFloat sample_float | PyNone | PyEllipsis

fun str_nat :: "nat \<Rightarrow> string" where
  "str_nat n =
     (if n < 10 then [''0123456789'' ! n]
      else str_nat (n div 10) @ [''0123456789'' ! (n mod 10)])"

declare str_nat.simps [simp del]

definition str_int :: "int \<Rightarrow> string" where
  "str_int i = (if i < 0 then CHR ''-'' # str_nat (nat (- i)) else str_nat (nat i))"

text \<open>The least integer of 4301 digits.\<close>

definition ten_pow_4300 :: int where
  "ten_pow_4300 = 10 ^ 4300"

definition cpython_eval :: "string \<Rightarrow> py_exception + pyval" where
  "cpython_eval expr =
     (if expr = ''5'' then Inr (PyInt 5)
      else if expr = ''50'' then Inr (PyInt 50)
      else if expr = ''200'' then Inr (PyInt 200)
      else if expr = ''4/2'' then Inr (PyFloat Float_2_0)
      else if expr = ''10**18'' then Inr (PyInt (10 ^ 18))
      else if expr = ''10**400'' then Inr (PyInt (10 ^ 400))
      else if expr = ''10**4300'' then Inr (PyInt ten_pow_4300)
      else if expr = ''...'' then Inr PyEllipsis
      else if expr = [CHR ''1'', CHR 0x09, CHR ''+'', CHR ''2''] then Inr (PyInt 3)
      else if expr = ''print(1)'' then Inr PyNone
      else if expr = ''1/0'' then Inl ZeroDivisionError
      else if expr = ''2+'' then Inl SyntaxError
      else Inl (OtherError ''not listed''))"

definition cpython_truediv :: "pyval \<Rightarrow> int \<Rightarrow> py_exception + pyval" where
  "cpython_truediv v n =
     (if v = PyInt 50 \<and> n = 100 then Inr (PyFloat Float_0_5)
      else if v = PyInt 200 \<and> n = 100 then Inr (PyFloat Float_2_0)
      else if v = PyInt (10 ^ 18) \<and> n = 100 then Inr (PyFloat Float_1e16)
      else if v = PyInt (10 ^ 400) \<and> n = 100 then Inl OverflowError
      else if v = PyNone \<or> v = PyEllipsis then Inl TypeError
      else Inl (OtherError ''not listed''))"

fun cpython_isinstance_float :: "pyval \<Rightarrow> bool" where
  "cpython_isinstance_float (PyFloat f) = True"
| "cpython_isinstance_float v = False"

fun cpython_is_integer :: "pyval \<Rightarrow> bool" where
  "cpython_is_integer (PyFloat Float_0_5) = False"
| "cpython_is_integer (PyFloat Float_2_0) = True"
| "cpython_is_integer (PyFloat Float_1e16) = True"
| "cpython_is_integer v = False"

fun cpython_int :: "pyval \<Rightarrow> pyval" where
  "cpython_int (PyFloat Float_0_5) = PyInt 0"
| "cpython_int (PyFloat Float_2_0) = PyInt 2"
| "cpython_int (PyFloat Float_1e16) = PyInt (10 ^ 16)"
| "cpython_int v = v"

fun cpython_str :: "pyval \<Rightarrow> string" where
  "cpython_str (PyInt i) = str_int i"
| "cpython_str (PyFloat Float_0_5) = ''0.5''"
| "cpython_str (PyFloat Float_2_0) = ''2.0''"
| "cpython_str (PyFloat Float_1e16) = ''1e+16''"
| "cpython_str PyNone = ''None''"
| "cpython_str PyEllipsis = ''Ellipsis''"

text \<open>\<open>str\<close> of an integer raises from 4301 digits on, that is from \<open>10 ^ 4300\<close> on.\<close>

fun cpython_str_raises :: "pyval \<Rightarrow> py_exception option" where
  "cpython_str_raises (PyInt i) =
     (if ten_pow_4300 \<le> \<bar>i\<bar>
      then Some (ValueError ''Exceeds the limit (4300 digits) for integer string conversion'')
      else None)"
| "cpython_str_raises v = None"

definition cpython :: "pyval runtime" where
  "cpython =
     \<lparr>py_eval = (\<lambda>expr globals locals. cpython_eval expr),
      py_truediv = cpython_truediv,
      py_isinstance_float = cpython_isinstance_float,
      py_is_integer = cpython_is_integer,
      py_int = cpython_int,
      py_str = cpython_str,
      py_str_raises = cpython_str_raises\<rparr>"

section \<open>Properties\<close>

subsection \<open>The two evaluating branches of on_button_click\<close>

lemma equals_unfold:
  "on_button_click rt ''='' self =
     (if strip (expression self) = [] then self
      else case safe_eval rt (expression self) of
             Inl err \<Rightarrow> self\<lparr>result_var := ''Error'', expression := []\<rparr>
           | Inr result \<Rightarrow>
               (let whole = (py_isinstance_float rt result \<and> py_is_integer rt result);
                    result' = (if whole then py_int rt result else result)
                in case (if whole then None else py_str_raises rt result') of
                     Some err \<Rightarrow> self\<lparr>result_var := ''Error'', expression := []\<rparr>
                   | None \<Rightarrow>
                       self\<lparr>result_var := py_str rt result',
                            expr_var := expression self @ '' ='',
                            expression := py_str rt result'\<rparr>))"
  by (simp add: on_button_click_def)

lemma percent_unfold:
  "on_button_click rt ''%'' self =
     (if strip (expression self) = [] then self
      else case safe_eval rt (expression self) of
             Inl err \<Rightarrow> self\<lparr>result_var := ''Error''\<rparr>
           | Inr val \<Rightarrow>
               (case py_truediv rt val 100 of
                  Inl err \<Rightarrow> self\<lparr>result_var := ''Error''\<rparr>
                | Inr val' \<Rightarrow>
                    (let e = py_str rt val'
                     in self\<lparr>expression := e, expr_var := e, result_var := e\<rparr>)))"
  by (simp add: on_button_click_def)

subsection \<open>The screen on the example inputs\<close>

lemma screen_sqrt:
  "screen ''sqrt(16)'' = Some (ValueError ''Invalid character found in expression'')"
  by (simp add: isalpha_def)

lemma screen_pow: "screen ''pow(2,10)'' = Some (ValueError ''Invalid character: ,'')"
  by (simp add: isalpha_def isspace_def allowed_chars_def)

lemma screen_print: "screen ''print(1)'' = None"
  by (simp add: isalpha_def isspace_def allowed_chars_def)




subsection \<open>Reach of the evaluator\<close>

text \<open>
  Claim C1 says that no input string can call anything but arithmetic and the eight names
  of \<open>SAFE_FUNCTIONS\<close>. The string \<open>print(1)\<close> names \<open>print\<close>, which is none of the eight,
  and the screen lets it through: for every runtime \<open>safe_eval\<close> hands it to \<open>eval\<close>,
  with a globals dictionary that has neither a key \<open>print\<close> nor a key \<open>__builtins__\<close>.
  (Python's \<open>eval\<close> adds its full built-in namespace to a globals dictionary without
  the key \<open>__builtins__\<close>.)
\<close>

theorem print_reaches_eval:
  "safe_eval rt ''print(1)'' = py_eval rt ''print(1)'' (map_of SAFE_FUNCTIONS) Map.empty \<and>
   map_of SAFE_FUNCTIONS ''print'' = None \<and>
   map_of SAFE_FUNCTIONS ''__builtins__'' = None"
  by (simp add: safe_eval_def screen_print SAFE_FUNCTIONS_def del: screen.simps)

theorem print_reaches_eval_witness:
  "safe_eval cpython ''print(1)'' = Inr PyNone \<and>
   map_of SAFE_FUNCTIONS ''print'' = None \<and>
   map_of SAFE_FUNCTIONS ''__builtins__'' = None"
  using print_reaches_eval [of cpython] by (simp add: cpython_def cpython_eval_def)

text \<open>
  Claim C2 says that \<open>sqrt(16)\<close> evaluates to 4 and \<open>pow(2,10)\<close> to 1024. The letter
  \<open>q\<close> is missing from the letters the screen accepts and the comma from
  \<open>allowed_chars\<close>: whatever the runtime, \<open>safe_eval\<close> raises \<open>ValueError\<close> on both
  strings before it calls \<open>eval\<close>.
\<close>

theorem sqrt_and_pow_are_screened_out:
  "safe_eval rt ''sqrt(16)'' = Inl (ValueError ''Invalid character found in expression'') \<and>
   safe_eval rt ''pow(2,10)'' = Inl (ValueError ''Invalid character: ,'')"
  by (simp add: safe_eval_def screen_sqrt screen_pow del: screen.simps)

theorem sqrt_and_pow_are_screened_out_witness:
  "safe_eval cpython ''sqrt(16)'' = Inl (ValueError ''Invalid character found in expression'') \<and>
   safe_eval cpython ''pow(2,10)'' = Inl (ValueError ''Invalid character: ,'')"
  by (rule sqrt_and_pow_are_screened_out [of cpython])

subsection \<open>Failures of the equals and percent operations\<close>



subsection \<open>Literals and the search for the trailing one\<close>

lemma isdigit_not_special:
  "isdigit c \<Longrightarrow> c \<noteq> CHR ''-'' \<and> c \<noteq> CHR ''.'' \<and> c \<noteq> CHR 0x0A"
  by (auto simp: isdigit_def)

lemma unsigned_literal_Nil [simp]: "unsigned_literal [] = False"
  by (simp add: unsigned_literal_def)

lemma unsigned_literal_Cons:
  "unsigned_literal (c # u) =
     (if isdigit c then u = [] \<or> unsigned_literal u
      else c = CHR ''.'' \<and> u \<noteq> [] \<and> list_all isdigit u)"
  by (cases u) (auto simp: unsigned_literal_def)

lemma unsigned_literal_chars:
  "unsigned_literal u \<Longrightarrow> c \<in> set u \<Longrightarrow> isdigit c \<or> c = CHR ''.''"
  by (induction u) (auto simp: unsigned_literal_Cons list_all_iff split: if_splits)

lemma unsigned_literal_last: "unsigned_literal u \<Longrightarrow> isdigit (last u)"
  by (induction u) (auto simp: unsigned_literal_Cons list_all_iff split: if_splits)

lemma unsigned_literal_mid:
  "unsigned_literal (x @ c # u) \<Longrightarrow> isdigit c \<or> (c = CHR ''.'' \<and> list_all isdigit u)"
  by (induction x) (auto simp: unsigned_literal_Cons split: if_splits)

lemma literal_mid:
  "literal (x @ c # u) \<Longrightarrow>
     (x = [] \<and> c = CHR ''-'') \<or> isdigit c \<or> (c = CHR ''.'' \<and> list_all isdigit u)"
proof (cases x)
  case Nil
  assume "literal (x @ c # u)"
  with Nil show ?thesis
    using unsigned_literal_mid [of "[]" c u] by (auto split: if_splits)
next
  case (Cons a x')
  assume "literal (x @ c # u)"
  with Cons have "unsigned_literal (x' @ c # u) \<or> unsigned_literal ((a # x') @ c # u)"
    by (auto split: if_splits)
  then show ?thesis
    using unsigned_literal_mid [of x' c u] unsigned_literal_mid [of "a # x'" c u] by blast
qed

lemma literal_unsigned: "unsigned_literal u \<Longrightarrow> literal u"
  by (cases u) (auto simp: unsigned_literal_Cons isdigit_not_special split: if_splits)

lemma literal_last: "literal t \<Longrightarrow> t \<noteq> [] \<and> isdigit (last t)"
  by (cases t) (auto dest: unsigned_literal_last split: if_splits)

lemma find_start_Some:
  "find_start t = Some s \<Longrightarrow> s < length t \<and> literal (drop s t) \<and> (\<forall>i<s. \<not> literal (drop i t))"
proof (induction t arbitrary: s)
  case Nil
  then show ?case by simp
next
  case (Cons c r)
  show ?case
  proof (cases "literal (c # r)")
    case True
    with Cons.prems show ?thesis by (simp del: literal.simps)
  next
    case False
    with Cons.prems obtain s' where s': "find_start r = Some s'" "s = Suc s'"
      by (auto simp del: literal.simps)
    from Cons.IH [OF s'(1)] False s'(2) show ?thesis
      by (auto simp: less_Suc_eq_0_disj)
  qed
qed

lemma find_start_None: "find_start t = None \<Longrightarrow> \<not> literal (drop i t)"
proof (induction t arbitrary: i)
  case Nil
  then show ?case by simp
next
  case (Cons c r)
  then show ?case by (cases i) (auto split: if_splits)
qed

lemma find_start_least:
  "literal (drop s t) \<Longrightarrow> (\<forall>i<s. \<not> literal (drop i t)) \<Longrightarrow> find_start t = Some s"
proof (induction t arbitrary: s)
  case Nil
  then show ?case by simp
next
  case (Cons c r)
  show ?case
  proof (cases s)
    case 0
    with Cons.prems show ?thesis by simp
  next
    case (Suc s')
    with Cons.prems have "\<not> literal (c # r)" by auto
    moreover from Cons.prems Suc have "literal (drop s' r)" "\<forall>i<s'. \<not> literal (drop i r)" by auto
    ultimately show ?thesis using Cons.IH [of s'] Suc by simp
  qed
qed

lemma find_start_le:
  assumes "literal (drop i t)"
  shows "\<exists>s\<le>i. find_start t = Some s"
proof (cases "find_start t")
  case None
  with assms show ?thesis using find_start_None by blast
next
  case (Some s)
  with assms find_start_Some [OF Some] have "s \<le> i" by (meson not_le)
  with Some show ?thesis by blast
qed


lemma expression_toggle_sign: "expression (toggle_sign self) = toggle_text (expression self)"
  by (simp add: toggle_sign_def toggle_text_def Let_def split: option.splits prod.splits)

lemma re_search_plain:
  "\<not> (e \<noteq> [] \<and> last e = CHR 0x0A) \<Longrightarrow>
     re_search e = map_option (\<lambda>start. (start, drop start e)) (find_start e)"
  by (auto simp: re_search_def)

lemma re_search_literal: "re_search e = Some (s, num) \<Longrightarrow> literal num"
  by (auto simp: re_search_def Let_def dest: find_start_Some split: if_splits)

lemma toggled_literal_last:
  assumes "literal num"
  shows "(if take 1 num = ''-'' then drop 1 num else ''-'' @ num) \<noteq> [] \<and>
         isdigit (last (if take 1 num = ''-'' then drop 1 num else ''-'' @ num))"
proof (cases num)
  case Nil
  with assms show ?thesis by simp
next
  case (Cons c u)
  show ?thesis
  proof (cases "c = CHR ''-''")
    case True
    with Cons assms have "unsigned_literal u" by simp
    then have "u \<noteq> []" "isdigit (last u)" by (auto dest: unsigned_literal_last)
    with Cons True show ?thesis by simp
  next
    case False
    with Cons assms literal_last [OF assms] show ?thesis by simp
  qed
qed

lemma toggle_text_match_last:
  assumes "re_search e = Some (s, num)"
  shows "toggle_text e \<noteq> [] \<and> isdigit (last (toggle_text e))"
  using toggled_literal_last [OF re_search_literal [OF assms]] assms
  by (simp add: toggle_text_def)

lemma toggle_text_last:
  "toggle_text e = e \<or> (toggle_text e \<noteq> [] \<and> isdigit (last (toggle_text e)))"
proof (cases "re_search e")
  case None
  then show ?thesis by (simp add: toggle_text_def)
next
  case (Some p)
  then show ?thesis using toggle_text_match_last [of e "fst p" "snd p"] by simp
qed

lemma plain_if_last_digit: "isdigit (last e) \<Longrightarrow> \<not> (e \<noteq> [] \<and> last e = CHR 0x0A)"
  by (auto dest: isdigit_not_special)

lemma toggle_text_plain:
  assumes "isdigit (last e)" "find_start e = Some s"
  shows "toggle_text e =
           take s e @ (if take 1 (drop s e) = ''-'' then drop 1 (drop s e) else ''-'' @ drop s e)"
  using assms re_search_plain [OF plain_if_last_digit [OF assms(1)]]
  by (simp add: toggle_text_def)

lemma unsigned_refind:
  assumes lit: "literal num" and ns: "take 1 num \<noteq> ''-''"
  shows "find_start (pre @ CHR ''-'' # num) = Some (length pre)"
proof (rule find_start_least)
  from lit ns have "unsigned_literal num" by (cases num) (auto split: if_splits)
  then show "literal (drop (length pre) (pre @ CHR ''-'' # num))" by simp
next
  show "\<forall>i<length pre. \<not> literal (drop i (pre @ CHR ''-'' # num))"
  proof (intro allI impI)
    fix i assume i: "i < length pre"
    then have "drop i pre \<noteq> []" by simp
    show "\<not> literal (drop i (pre @ CHR ''-'' # num))"
    proof
      assume "literal (drop i (pre @ CHR ''-'' # num))"
      with i have "literal (drop i pre @ CHR ''-'' # num)" by simp
      from literal_mid [OF this] \<open>drop i pre \<noteq> []\<close> show False
        by (auto simp: isdigit_def)
    qed
  qed
qed

lemma toggle_twice_unsigned:
  assumes e: "\<not> (e \<noteq> [] \<and> last e = CHR 0x0A)" and fs: "find_start e = Some s"
    and ns: "take 1 (drop s e) \<noteq> ''-''"
  shows "toggle_text (toggle_text e) = e"
proof -
  let ?num = "drop s e" and ?pre = "take s e"
  from find_start_Some [OF fs] have lit: "literal ?num" and s: "s < length e" by auto
  from e fs ns have t1: "toggle_text e = ?pre @ CHR ''-'' # ?num"
    by (simp add: toggle_text_def re_search_plain)
  have len: "length ?pre = s" using s by simp
  have fs': "find_start (?pre @ CHR ''-'' # ?num) = Some s"
    using unsigned_refind [OF lit ns, of ?pre] len by simp
  from literal_last [OF lit] s have dl: "isdigit (last (?pre @ CHR ''-'' # ?num))" by simp
  have "toggle_text (?pre @ CHR ''-'' # ?num) = ?pre @ ?num"
    using toggle_text_plain [OF dl fs'] len by simp
  with t1 show ?thesis by simp
qed

lemma signed_refind:
  assumes u: "unsigned_literal u"
  shows "find_start (pre @ u) = Some (length pre) \<longleftrightarrow>
           (pre = [] \<or> (\<not> isdigit (last pre) \<and> last pre \<noteq> CHR ''-'' \<and>
                          (last pre = CHR ''.'' \<longrightarrow> CHR ''.'' \<in> set u)))"
    (is "?L \<longleftrightarrow> ?R")
proof
  assume R: ?R
  show ?L
  proof (rule find_start_least)
    show "literal (drop (length pre) (pre @ u))" using u by (simp add: literal_unsigned)
  next
    show "\<forall>i<length pre. \<not> literal (drop i (pre @ u))"
    proof (intro allI impI)
      fix i assume i: "i < length pre"
      then have ne: "drop i pre \<noteq> []" and pne: "pre \<noteq> []" by auto
      then have d: "drop i pre = butlast (drop i pre) @ [last pre]"
        using i by (metis append_butlast_last_id last_drop)
      show "\<not> literal (drop i (pre @ u))"
      proof
        assume "literal (drop i (pre @ u))"
        with i have "literal (drop i pre @ u)" by simp
        with d have "literal (butlast (drop i pre) @ last pre # u)"
          by (metis append.assoc append_Cons append_Nil)
        from literal_mid [OF this] R pne show False
          by (auto simp: list_all_iff dest: isdigit_not_special)
      qed
    qed
  qed
next
  assume L: ?L
  show ?R
  proof (rule ccontr)
    assume nR: "\<not> ?R"
    then have pne: "pre \<noteq> []" by auto
    let ?c = "last pre"
    from nR pne have c: "isdigit ?c \<or> ?c = CHR ''-'' \<or> (?c = CHR ''.'' \<and> CHR ''.'' \<notin> set u)"
      by auto
    from u have une: "u \<noteq> []" by auto
    have "literal (?c # u)"
    proof -
      from c consider "isdigit ?c" | "?c = CHR ''-''" | "?c = CHR ''.''" "CHR ''.'' \<notin> set u"
        by blast
      then show ?thesis
      proof cases
        case 1
        then show ?thesis using u by (auto simp: unsigned_literal_Cons dest: isdigit_not_special)
      next
        case 2
        then show ?thesis using u by simp
      next
        case 3
        from u 3(2) have "list_all isdigit u"
          using unsigned_literal_chars [OF u] by (auto simp: list_all_iff)
        with 3 une show ?thesis by (simp add: unsigned_literal_Cons isdigit_def)
      qed
    qed
    moreover have "drop (length pre - 1) (pre @ u) = ?c # u"
      using pne by (induction pre) (auto simp: drop_Cons')
    moreover have "length pre - 1 < length pre" using pne by simp
    ultimately show False using find_start_Some [OF L] by metis
  qed
qed


lemma toggle_twice_signed:
  assumes fs: "find_start (pre @ CHR ''-'' # u) = Some (length pre)"
  shows "toggle_text (toggle_text (pre @ CHR ''-'' # u)) = pre @ CHR ''-'' # u \<longleftrightarrow>
           find_start (pre @ u) = Some (length pre)"
proof -
  let ?e = "pre @ CHR ''-'' # u"
  from find_start_Some [OF fs] have u: "unsigned_literal u" by simp
  then have une: "u \<noteq> []" and ul: "isdigit (last u)" by (auto dest: unsigned_literal_last)
  have t1: "toggle_text ?e = pre @ u"
    using toggle_text_plain [of ?e "length pre"] fs ul une by simp
  have dl: "isdigit (last (pre @ u))" using ul une by simp
  from find_start_le [of "length pre" "pre @ u"] u
  obtain s' where s': "s' \<le> length pre" "find_start (pre @ u) = Some s'"
    by (auto simp: literal_unsigned)
  let ?num = "drop s' (pre @ u)"
  have t2: "toggle_text (pre @ u) =
              take s' (pre @ u) @ (if take 1 ?num = ''-'' then drop 1 ?num else ''-'' @ ?num)"
    by (rule toggle_text_plain [OF dl s'(2)])
  show ?thesis
  proof (cases "s' = length pre")
    case True
    from u have "take 1 u \<noteq> ''-''"
      by (cases u) (auto simp: unsigned_literal_Cons dest: isdigit_not_special split: if_splits)
    with True t2 have "toggle_text (pre @ u) = ?e" by simp
    with t1 True s' show ?thesis by simp
  next
    case False
    with s' have lt: "s' < length pre" by simp
    have ne: "toggle_text (pre @ u) \<noteq> ?e"
    proof (cases "take 1 ?num = ''-''")
      case True
      with t2 have "length (toggle_text (pre @ u)) = s' + (length (pre @ u) - s' - 1)"
        using lt by simp
      also have "\<dots> < length ?e" using lt by simp
      finally show ?thesis by auto
    next
      case F: False
      from lt have num: "?num = pre ! s' # drop (Suc s') pre @ u"
        by (simp add: Cons_nth_drop_Suc)
      from F [unfolded num] have c: "pre ! s' \<noteq> CHR ''-''" by simp
      from F t2 lt have "toggle_text (pre @ u) = take s' pre @ CHR ''-'' # ?num" by simp
      then have "toggle_text (pre @ u) ! s' = CHR ''-''"
        using lt by (simp add: nth_append)
      moreover have "?e ! s' = pre ! s'" using lt by (simp add: nth_append)
      ultimately show ?thesis using c by metis
    qed
    with t1 False s' show ?thesis by simp
  qed
qed

lemma toggle_twice_newline:
  assumes nl: "e \<noteq> [] \<and> last e = CHR 0x0A" and m: "re_search e = Some (s, num)"
  shows "toggle_text (toggle_text e) \<noteq> e"
proof -
  from toggle_text_match_last [OF m]
  have 1: "toggle_text e \<noteq> []" "isdigit (last (toggle_text e))" by auto
  from toggle_text_last [of "toggle_text e"] 1
  have "isdigit (last (toggle_text (toggle_text e)))" by auto
  with nl show ?thesis by (auto dest: isdigit_not_special)
qed

lemma toggle_twice_text: "toggle_text (toggle_text e) = e \<longleftrightarrow> toggle_sign_reversible e"
proof (cases "re_search e")
  case None
  then show ?thesis by (simp add: toggle_text_def toggle_sign_reversible_def)
next
  case (Some p)
  obtain s num where p: "p = (s, num)" by (cases p)
  with Some have m: "re_search e = Some (s, num)" by simp
  show ?thesis
  proof (cases "e \<noteq> [] \<and> last e = CHR 0x0A")
    case True
    with toggle_twice_newline [OF True m] m show ?thesis
      by (simp add: toggle_sign_reversible_def)
  next
    case plain: False
    with m have fs: "find_start e = Some s" and num: "num = drop s e"
      by (auto simp: re_search_plain)
    from find_start_Some [OF fs] have s: "s < length e" and lit: "literal num"
      using num by auto
    show ?thesis
    proof (cases "take 1 num = ''-''")
      case False
      with toggle_twice_unsigned [OF plain fs] num m plain show ?thesis
        by (simp add: toggle_sign_reversible_def)
    next
      case True
      then obtain u where u: "num = CHR ''-'' # u" by (cases num) auto
      let ?pre = "take s e"
      have e: "e = ?pre @ CHR ''-'' # u" using num u by (metis append_take_drop_id)
      have len: "length ?pre = s" using s by simp
      from lit u have ul: "unsigned_literal u" by simp
      have fs': "find_start (?pre @ CHR ''-'' # u) = Some (length ?pre)"
        using fs e len by simp
      have "toggle_text (toggle_text e) = e \<longleftrightarrow> find_start (?pre @ u) = Some (length ?pre)"
        using toggle_twice_signed [OF fs'] e by simp
      also have "\<dots> \<longleftrightarrow> (?pre = [] \<or> (\<not> isdigit (last ?pre) \<and> last ?pre \<noteq> CHR ''-'' \<and>
                          (last ?pre = CHR ''.'' \<longrightarrow> CHR ''.'' \<in> set u)))"
        by (rule signed_refind [OF ul])
      also have "\<dots> \<longleftrightarrow> toggle_sign_reversible e"
      proof (cases "s = 0")
        case True
        with m plain u show ?thesis by (simp add: toggle_sign_reversible_def)
      next
        case False
        then have pne: "?pre \<noteq> []" using s by auto
        moreover have "last ?pre = e ! (s - 1)"
          using False s pne by (simp add: last_conv_nth)
        ultimately show ?thesis using m plain u False
          by (auto simp: toggle_sign_reversible_def Let_def)
      qed
      finally show ?thesis .
    qed
  qed
qed

subsection \<open>Two sign toggles\<close>

lemma expression_toggle_twice:
  "expression (toggle_sign (toggle_sign self)) = toggle_text (toggle_text (expression self))"
  by (simp add: expression_toggle_sign)

text \<open>
  Claim C4 says that two applications of toggle-sign restore every buffer. On the buffer
  \<open>5-3\<close> the pattern takes the binary minus for the sign of \<open>3\<close>: the first toggle
  gives \<open>53\<close>, the second \<open>-53\<close>.
\<close>

theorem double_toggle_sign_counterexample:
  "toggle_sign (toggle_sign \<lparr>expression = ''5-3'', expr_var = ''5-3'', result_var = []\<rparr>)
     = \<lparr>expression = ''-53'', expr_var = ''-53'', result_var = []\<rparr>"
  by (simp add: toggle_sign_def re_search_def unsigned_literal_def isdigit_def Let_def)

text \<open>
  Claim C4, amended: two applications of toggle-sign restore the buffer exactly when
  \<open>toggle_sign_reversible\<close> holds of it, that is when no trailing literal is found, or
  when the buffer does not end in a newline and one of these holds: the literal found has
  no leading minus sign; its minus sign starts the buffer; the character before the minus
  sign is no digit, no minus sign and (unless the literal has a dot itself) no dot.
\<close>

theorem double_toggle_sign:
  "expression (toggle_sign (toggle_sign self)) = expression self \<longleftrightarrow>
     toggle_sign_reversible (expression self)"
  by (simp only: expression_toggle_twice toggle_twice_text)

theorem double_toggle_sign_witness:
  "toggle_sign_reversible ''2*-5'' \<and>
   expression (toggle_sign (toggle_sign
     \<lparr>expression = ''2*-5'', expr_var = ''2*-5'', result_var = []\<rparr>)) = ''2*-5''"
proof -
  have r: "toggle_sign_reversible ''2*-5''"
    by (simp add: toggle_sign_reversible_def re_search_def unsigned_literal_def isdigit_def Let_def)
  from double_toggle_sign [of "\<lparr>expression = ''2*-5'', expr_var = ''2*-5'', result_var = []\<rparr>"] r
  show ?thesis by simp
qed

subsection \<open>The alphabet of the screen\<close>

lemma alpha_letters: "ch \<in> set ''sincotapewabsr'' \<Longrightarrow> isalpha ch"
  by (auto simp: isalpha_def)

lemma space_not_alpha: "isspace ch \<Longrightarrow> \<not> isalpha ch"
  by (auto simp: isalpha_def isspace_def)

lemma digit_not_alpha: "isdigit ch \<Longrightarrow> \<not> isalpha ch \<and> ch \<in> set allowed_chars"
  by (auto simp: isalpha_def isdigit_def allowed_chars_def)

lemma op_not_alpha: "ch \<in> set ''+-*/().%'' \<Longrightarrow> \<not> isalpha ch \<and> ch \<in> set allowed_chars"
  by (auto simp: isalpha_def allowed_chars_def)

lemma allowed_cases:
  "ch \<in> set allowed_chars \<Longrightarrow>
     isdigit ch \<or> ch \<in> set ''+-*/().%'' \<or> ch = CHR '' '' \<or> ch = CHR ''e''"
  by (auto simp: isdigit_def allowed_chars_def)

lemma screen_char:
  fixes ch :: char
  defines "P \<equiv> isalpha ch \<and> ch \<notin> set ''sincotapewabsr''"
    and "Q \<equiv> isalpha ch \<or> isspace ch"
    and "R \<equiv> ch \<in> set allowed_chars"
  shows "(if P then False else if Q then True else R) = screened_ok ch"
proof -
  have e: "isalpha CHR ''e''" by (simp add: isalpha_def)
  have sp: "isspace CHR '' ''" by (simp add: isspace_def)
  have "(\<not> P \<and> (Q \<or> R)) = screened_ok ch"
    unfolding P_def Q_def R_def screened_ok_def
    using alpha_letters [of ch] space_not_alpha [of ch] digit_not_alpha [of ch]
      op_not_alpha [of ch] allowed_cases [of ch] e sp
    by blast
  then show ?thesis by (cases P; cases Q) simp_all
qed

lemma screen_None_iff: "screen s = None \<longleftrightarrow> list_all screened_ok s"
proof (induction s)
  case Nil
  show ?case by simp
next
  case (Cons ch rest)
  define P where "P = (isalpha ch \<and> ch \<notin> set ''sincotapewabsr'')"
  define Q where "Q = (isalpha ch \<or> isspace ch)"
  define R where "R = (ch \<in> set allowed_chars)"
  have ok: "(if P then False else if Q then True else R) = screened_ok ch"
    unfolding P_def Q_def R_def by (rule screen_char)
  have step: "screen (ch # rest) =
      (if P then Some (ValueError ''Invalid character found in expression'')
       else if Q then screen rest
       else if \<not> R then Some (ValueError (''Invalid character: '' @ [ch]))
       else screen rest)"
    unfolding P_def Q_def R_def by (simp only: screen.simps)
  have all: "list_all screened_ok (ch # rest) = (screened_ok ch \<and> list_all screened_ok rest)"
    by simp
  from ok Cons show ?case
    unfolding step all by (cases P; cases Q; cases R) simp_all
qed

lemma screen_Some_ValueError: "screen s = Some err \<Longrightarrow> \<exists>msg. err = ValueError msg"
  by (induction s) (auto split: if_splits)

lemma safe_eval_screened_out:
  assumes "\<not> list_all screened_ok s"
  shows "\<exists>msg. \<forall>rt. safe_eval rt s = Inl (ValueError msg)"
proof -
  from assms obtain err where e: "screen s = Some err"
    using screen_None_iff [of s] by (cases "screen s") auto
  from screen_Some_ValueError [OF e] obtain msg where "err = ValueError msg" ..
  with e have "\<forall>rt. safe_eval rt s = Inl (ValueError msg)"
    by (simp add: safe_eval_def)
  then show ?thesis ..
qed

text \<open>
  Claim C3 says that every string with a character outside the alphabet of the
  specification (\<open>spec_alphabet\<close>) fails as an invalid character. The loop skips every
  character of \<open>str.isspace\<close>, not only the space: the string \<open>1<TAB>+2\<close> has a tab,
  passes the screen and is evaluated (to 3).
\<close>

theorem screening_alphabet_counterexample:
  "CHR 0x09 \<in> set [CHR ''1'', CHR 0x09, CHR ''+'', CHR ''2''] \<and>
   CHR 0x09 \<notin> set spec_alphabet \<and>
   safe_eval cpython [CHR ''1'', CHR 0x09, CHR ''+'', CHR ''2''] = Inr (PyInt 3)"
  by (simp add: spec_alphabet_def safe_eval_def isalpha_def isspace_def allowed_chars_def
      cpython_def cpython_eval_def)

text \<open>
  Claim C3, amended: the screen lets through the decimal digits, \<open>+ - * / ( ) . %\<close>, every
  whitespace character of \<open>str.isspace\<close> (the space, tab, newline and the others), and the
  letters \<open>s i n c o t a p e w b r\<close>: a string of such characters is handed to \<open>eval\<close>.
  A string with a character that is none of these and not the letter \<open>q\<close> fails with the
  \<open>ValueError\<close> of the screen, the same for every runtime, so before any evaluation.
\<close>

theorem screening_alphabet:
  "(list_all screened_ok s \<longrightarrow>
      safe_eval rt s = py_eval rt s (map_of SAFE_FUNCTIONS) Map.empty) \<and>
   ((\<exists>c\<in>set s. \<not> screened_ok c \<and> c \<noteq> CHR ''q'') \<longrightarrow>
      (\<exists>msg. \<forall>rt'::'v runtime. safe_eval rt' s = Inl (ValueError msg)))"
proof (intro conjI impI)
  assume "list_all screened_ok s"
  then have "screen s = None" by (simp add: screen_None_iff)
  then show "safe_eval rt s = py_eval rt s (map_of SAFE_FUNCTIONS) Map.empty"
    by (simp add: safe_eval_def)
next
  assume "\<exists>c\<in>set s. \<not> screened_ok c \<and> c \<noteq> CHR ''q''"
  then have "\<not> list_all screened_ok s" by (auto simp: list_all_iff)
  then show "\<exists>msg. \<forall>rt'::'v runtime. safe_eval rt' s = Inl (ValueError msg)"
    by (rule safe_eval_screened_out)
qed

theorem screening_alphabet_witness:
  "safe_eval cpython ''5'' = Inr (PyInt 5) \<and>
   (\<exists>msg. \<forall>rt'::pyval runtime. safe_eval rt' ''5$'' = Inl (ValueError msg))"
proof -
  have a: "list_all screened_ok ''5''" by (simp add: screened_ok_def isdigit_def)
  have b: "\<exists>c\<in>set ''5$''. \<not> screened_ok c \<and> c \<noteq> CHR ''q''"
    by (simp add: screened_ok_def isdigit_def isspace_def)
  have c: "py_eval cpython ''5'' (map_of SAFE_FUNCTIONS) Map.empty = Inr (PyInt 5)"
    by (simp add: cpython_def cpython_eval_def)
  from screening_alphabet [of "''5''" cpython] a c
  have 1: "safe_eval cpython ''5'' = Inr (PyInt 5)" by simp
  from screening_alphabet [of "''5$''" cpython] b
  have 2: "\<exists>msg. \<forall>rt'::pyval runtime. safe_eval rt' ''5$'' = Inl (ValueError msg)" by blast
  from 1 2 show ?thesis ..
qed

subsection \<open>The example buffers under the listed responses\<close>

lemma strip_Nil: "strip [] = []"
  by (simp add: strip_def)


lemma strip_spaces: "strip ''  '' = []"
  by (simp add: strip_def isspace_def)

lemma strip_examples:
  "strip ''5'' = ''5''" "strip ''50'' = ''50''" "strip ''200'' = ''200''"
  "strip ''4/2'' = ''4/2''" "strip ''10**18'' = ''10**18''" "strip ''10**400'' = ''10**400''"
  by (simp_all add: strip_def isspace_def)

lemma screen_examples:
  "screen ''5'' = None" "screen ''50'' = None" "screen ''200'' = None"
  "screen ''4/2'' = None" "screen ''10**18'' = None" "screen ''10**400'' = None"
  by (simp_all add: isalpha_def isspace_def allowed_chars_def)

lemma safe_eval_cpython_examples:
  "safe_eval cpython ''5'' = Inr (PyInt 5)"
  "safe_eval cpython ''50'' = Inr (PyInt 50)"
  "safe_eval cpython ''200'' = Inr (PyInt 200)"
  "safe_eval cpython ''4/2'' = Inr (PyFloat Float_2_0)"
  "safe_eval cpython ''10**18'' = Inr (PyInt (10 ^ 18))"
  "safe_eval cpython ''10**400'' = Inr (PyInt (10 ^ 400))"
  by (simp_all add: safe_eval_def screen_examples cpython_def cpython_eval_def
      del: screen.simps)

lemma cpython_fields:
  "py_truediv cpython = cpython_truediv"
  "py_isinstance_float cpython = cpython_isinstance_float"
  "py_is_integer cpython = cpython_is_integer"
  "py_int cpython = cpython_int"
  "py_str cpython = cpython_str"
  by (simp_all add: cpython_def)

lemma cpython_truediv_examples:
  "cpython_truediv (PyInt 50) 100 = Inr (PyFloat Float_0_5)"
  "cpython_truediv (PyInt 200) 100 = Inr (PyFloat Float_2_0)"
  "cpython_truediv (PyInt (10 ^ 18)) 100 = Inr (PyFloat Float_1e16)"
  "cpython_truediv (PyInt (10 ^ 400)) 100 = Inl OverflowError"
  by (simp_all add: cpython_truediv_def)

lemma str_int_examples: "str_int 5 = ''5''" "str_int 2 = ''2''"
  by (simp_all add: str_int_def str_nat.simps)

lemma small_below_ten_pow_4300: "\<bar>i\<bar> < 10 \<Longrightarrow> \<not> ten_pow_4300 \<le> \<bar>i\<bar>"
proof -
  assume i: "\<bar>i\<bar> < 10"
  have "(10::int) ^ 1 \<le> 10 ^ 4300" by (rule power_increasing) simp_all
  then have "(10::int) \<le> ten_pow_4300" by (simp only: ten_pow_4300_def power_one_right)
  with i show ?thesis by linarith
qed

lemma five_below_ten_pow_4300: "\<not> ten_pow_4300 \<le> 5"
  using small_below_ten_pow_4300 [of 5] by simp

lemma cpython_str_raises_examples:
  "cpython_str_raises (PyInt 5) = None"
  "cpython_str_raises (PyInt ten_pow_4300) =
     Some (ValueError ''Exceeds the limit (4300 digits) for integer string conversion'')"
  "cpython_str_raises PyEllipsis = None"
  using small_below_ten_pow_4300 [of 5] by simp_all

lemma strip_more_examples:
  "strip ''10**4300'' = ''10**4300''" "strip ''...'' = ''...''"
  "strip ''Ellipsis'' = ''Ellipsis''"
  by (simp_all add: strip_def isspace_def)

lemma screen_more_examples:
  "screen ''10**4300'' = None" "screen ''...'' = None"
  "screen ''Ellipsis'' = Some (ValueError ''Invalid character found in expression'')"
  by (simp_all add: isalpha_def isspace_def allowed_chars_def)

lemma safe_eval_cpython_more_examples:
  "safe_eval cpython ''10**4300'' = Inr (PyInt ten_pow_4300)"
  "safe_eval cpython ''...'' = Inr PyEllipsis"
  "safe_eval cpython ''Ellipsis'' = Inl (ValueError ''Invalid character found in expression'')"
  by (simp_all add: safe_eval_def screen_more_examples cpython_def cpython_eval_def
      del: screen.simps)

lemma cpython_str_raises_field: "py_str_raises cpython = cpython_str_raises"
  by (simp add: cpython_def)

subsection \<open>The equals operation\<close>

text \<open>
  Claim C6 says that on every buffer whose evaluation succeeds the equals operation shows
  the rendered value. The call \<open>str(result)\<close> is inside the same \<open>try\<close>: the buffer
  \<open>10**4300\<close> evaluates to an integer of 4301 digits, \<open>str\<close> raises \<open>ValueError\<close>, and
  equals shows the error indicator, empties the buffer and leaves the expression line.
\<close>

theorem equals_operation_counterexample:
  "strip ''10**4300'' \<noteq> [] \<and>
   safe_eval cpython ''10**4300'' = Inr (PyInt ten_pow_4300) \<and>
   on_button_click cpython ''=''
     \<lparr>expression = ''10**4300'', expr_var = ''10**4300'', result_var = []\<rparr>
     = \<lparr>expression = [], expr_var = ''10**4300'', result_var = ''Error''\<rparr>"
  by (simp add: equals_unfold strip_more_examples safe_eval_cpython_more_examples
      cpython_fields cpython_str_raises_field cpython_str_raises_examples Let_def)

text \<open>
  Claim C6, amended: on an empty or whitespace-only buffer the equals operation changes
  nothing. On any other buffer whose evaluation succeeds and whose value \<open>str\<close> converts
  (every whole-number float, and every other value on which \<open>str\<close> does not raise), the
  value is rendered through \<open>int\<close> when it is a whole-number float and as it is otherwise;
  the result line and the buffer become the string of the rendered value and the expression
  line becomes the old buffer followed by \<open> =\<close>. When \<open>str\<close> raises, the result line
  becomes the error indicator, the buffer becomes empty and the expression line stays.
  (The example after the theorem runs the buffers \<open>5\<close> and \<open>4/2\<close>.)
\<close>

theorem equals_operation:
  "(strip (expression self) = [] \<longrightarrow> on_button_click rt ''='' self = self) \<and>
   (strip (expression self) \<noteq> [] \<and> safe_eval rt (expression self) = Inr result \<and>
    (py_isinstance_float rt result \<and> py_is_integer rt result \<or>
     py_str_raises rt result = None) \<longrightarrow>
      on_button_click rt ''='' self =
        (let rendered = (if py_isinstance_float rt result \<and> py_is_integer rt result
                         then py_int rt result else result)
         in self\<lparr>result_var := py_str rt rendered,
                 expr_var := expression self @ '' ='',
                 expression := py_str rt rendered\<rparr>)) \<and>
   (strip (expression self) \<noteq> [] \<and> safe_eval rt (expression self) = Inr result \<and>
    \<not> (py_isinstance_float rt result \<and> py_is_integer rt result) \<and>
    py_str_raises rt result = Some err \<longrightarrow>
      on_button_click rt ''='' self = self\<lparr>result_var := ''Error'', expression := []\<rparr>)"
  by (auto simp: equals_unfold Let_def)

theorem equals_operation_witness:
  "on_button_click cpython ''='' \<lparr>expression = ''  '', expr_var = ''7'', result_var = ''7''\<rparr>
     = \<lparr>expression = ''  '', expr_var = ''7'', result_var = ''7''\<rparr> \<and>
   on_button_click cpython ''='' \<lparr>expression = ''5'', expr_var = ''5'', result_var = []\<rparr>
     = \<lparr>expression = ''5'', expr_var = ''5 ='', result_var = ''5''\<rparr> \<and>
   on_button_click cpython ''='' \<lparr>expression = ''4/2'', expr_var = ''4/2'', result_var = []\<rparr>
     = \<lparr>expression = ''2'', expr_var = ''4/2 ='', result_var = ''2''\<rparr>"
proof -
  let ?blank = "\<lparr>expression = ''  '', expr_var = ''7'', result_var = ''7''\<rparr>"
  let ?five = "\<lparr>expression = ''5'', expr_var = ''5'', result_var = []\<rparr>"
  let ?half = "\<lparr>expression = ''4/2'', expr_var = ''4/2'', result_var = []\<rparr>"
  have 1: "on_button_click cpython ''='' ?blank = ?blank"
    using equals_operation [of ?blank cpython] by (simp add: strip_spaces)
  have 2: "on_button_click cpython ''='' ?five
             = \<lparr>expression = ''5'', expr_var = ''5 ='', result_var = ''5''\<rparr>"
    using equals_operation [of ?five cpython "PyInt 5"]
    by (simp add: strip_examples safe_eval_cpython_examples cpython_fields str_int_examples
        cpython_str_raises_field five_below_ten_pow_4300)
  have 3: "on_button_click cpython ''='' ?half
             = \<lparr>expression = ''2'', expr_var = ''4/2 ='', result_var = ''2''\<rparr>"
    using equals_operation [of ?half cpython "PyFloat Float_2_0"]
    by (simp add: strip_examples safe_eval_cpython_examples cpython_fields str_int_examples)
  from 1 2 3 show ?thesis by blast
qed

subsection \<open>The expression line after a failed equals\<close>








subsection \<open>The percent operation\<close>

text \<open>
  Claim C8 says that percent replaces every buffer whose evaluation succeeds by the string
  of the value divided by 100. The division is inside the same \<open>try\<close>: the buffer
  \<open>10**400\<close> evaluates to an integer whose quotient by 100 is too large for a float, the
  division raises \<open>OverflowError\<close>, and percent shows the error indicator and keeps the
  buffer.
\<close>

theorem percent_operation_counterexample:
  "strip ''10**400'' \<noteq> [] \<and>
   safe_eval cpython ''10**400'' = Inr (PyInt (10 ^ 400)) \<and>
   on_button_click cpython ''%''
     \<lparr>expression = ''10**400'', expr_var = ''10**400'', result_var = []\<rparr>
     = \<lparr>expression = ''10**400'', expr_var = ''10**400'', result_var = ''Error''\<rparr>"
  by (simp add: percent_unfold strip_examples safe_eval_cpython_examples cpython_fields
      cpython_truediv_def Let_def)

text \<open>
  Claim C8, amended: on an empty or whitespace-only buffer percent changes nothing; on any
  other buffer whose evaluation succeeds and whose value can be divided by 100, the buffer,
  the expression line and the result line all become the string of the quotient. (The
  example after the theorem runs the buffer \<open>50\<close>, which becomes \<open>0.5\<close>.)
\<close>

theorem percent_operation:
  "(strip (expression self) = [] \<longrightarrow> on_button_click rt ''%'' self = self) \<and>
   (strip (expression self) \<noteq> [] \<and> safe_eval rt (expression self) = Inr val \<and>
    py_truediv rt val 100 = Inr val' \<longrightarrow>
      on_button_click rt ''%'' self =
        self\<lparr>expression := py_str rt val', expr_var := py_str rt val',
             result_var := py_str rt val'\<rparr>)"
  by (simp add: percent_unfold Let_def)

theorem percent_operation_witness:
  "on_button_click cpython ''%'' \<lparr>expression = [], expr_var = ''7 ='', result_var = ''7''\<rparr>
     = \<lparr>expression = [], expr_var = ''7 ='', result_var = ''7''\<rparr> \<and>
   on_button_click cpython ''%'' \<lparr>expression = ''50'', expr_var = ''50'', result_var = []\<rparr>
     = \<lparr>expression = ''0.5'', expr_var = ''0.5'', result_var = ''0.5''\<rparr>"
proof -
  let ?blank = "\<lparr>expression = [], expr_var = ''7 ='', result_var = ''7''\<rparr>"
  let ?fifty = "\<lparr>expression = ''50'', expr_var = ''50'', result_var = []\<rparr>"
  have 1: "on_button_click cpython ''%'' ?blank = ?blank"
    using percent_operation [of ?blank cpython] by (simp add: strip_Nil)
  have 2: "on_button_click cpython ''%'' ?fifty
             = \<lparr>expression = ''0.5'', expr_var = ''0.5'', result_var = ''0.5''\<rparr>"
    using percent_operation [of ?fifty cpython "PyInt 50" "PyFloat Float_0_5"]
    by (simp add: strip_examples safe_eval_cpython_examples cpython_fields
        cpython_truediv_examples)
  from 1 2 show ?thesis ..
qed

text \<open>
  Claim C10 says that whenever the quotient is a whole-number float, percent leaves a
  string with a trailing \<open>.0\<close>. The buffer \<open>10**18\<close> has the quotient 1e16, a
  whole-number float whose string is \<open>1e+16\<close>.
\<close>

theorem percent_rendering_counterexample:
  "cpython_truediv (PyInt (10 ^ 18)) 100 = Inr (PyFloat Float_1e16) \<and>
   cpython_isinstance_float (PyFloat Float_1e16) \<and>
   cpython_is_integer (PyFloat Float_1e16) \<and>
   on_button_click cpython ''%''
     \<lparr>expression = ''10**18'', expr_var = ''10**18'', result_var = []\<rparr>
     = \<lparr>expression = ''1e+16'', expr_var = ''1e+16'', result_var = ''1e+16''\<rparr> \<and>
   \<not> ends_with_dot_zero ''1e+16''"
  by (simp add: percent_unfold strip_examples safe_eval_cpython_examples cpython_fields
      cpython_truediv_def ends_with_dot_zero_def Let_def)

text \<open>
  Claim C10, amended: percent never renders a whole-number float as an integer. Whenever
  the evaluation and the division by 100 succeed, the buffer and the result line become the
  string of the quotient itself, whether or not the quotient is a whole-number float,
  whereas equals shows a whole-number float through \<open>int\<close>. (The example after the theorem runs percent on
  \<open>200\<close>, which gives \<open>2.0\<close>, and equals on \<open>4/2\<close>, which gives \<open>2\<close>.)
\<close>

theorem percent_rendering:
  "(strip (expression self) \<noteq> [] \<and> safe_eval rt (expression self) = Inr val \<and>
    py_truediv rt val 100 = Inr val' \<longrightarrow>
      expression (on_button_click rt ''%'' self) = py_str rt val' \<and>
      result_var (on_button_click rt ''%'' self) = py_str rt val') \<and>
   (strip (expression self) \<noteq> [] \<and> safe_eval rt (expression self) = Inr val \<and>
    py_isinstance_float rt val \<and> py_is_integer rt val \<longrightarrow>
      expression (on_button_click rt ''='' self) = py_str rt (py_int rt val) \<and>
      result_var (on_button_click rt ''='' self) = py_str rt (py_int rt val))"
  by (simp add: percent_unfold equals_unfold Let_def)

theorem percent_rendering_witness:
  "cpython_is_integer (PyFloat Float_2_0) \<and>
   expression (on_button_click cpython ''%''
     \<lparr>expression = ''200'', expr_var = ''200'', result_var = []\<rparr>) = ''2.0'' \<and>
   result_var (on_button_click cpython ''%''
     \<lparr>expression = ''200'', expr_var = ''200'', result_var = []\<rparr>) = ''2.0'' \<and>
   ends_with_dot_zero ''2.0'' \<and>
   result_var (on_button_click cpython ''=''
     \<lparr>expression = ''4/2'', expr_var = ''4/2'', result_var = []\<rparr>) = ''2''"
proof -
  let ?p = "\<lparr>expression = ''200'', expr_var = ''200'', result_var = []\<rparr>"
  let ?q = "\<lparr>expression = ''4/2'', expr_var = ''4/2'', result_var = []\<rparr>"
  have 1: "expression (on_button_click cpython ''%'' ?p) = ''2.0'' \<and>
           result_var (on_button_click cpython ''%'' ?p) = ''2.0''"
    using percent_rendering [of ?p cpython "PyInt 200" "PyFloat Float_2_0"]
    by (simp add: strip_examples safe_eval_cpython_examples cpython_fields
        cpython_truediv_examples)
  have 2: "result_var (on_button_click cpython ''='' ?q) = ''2''"
    using percent_rendering [of ?q cpython "PyFloat Float_2_0"]
    by (simp add: strip_examples safe_eval_cpython_examples cpython_fields str_int_examples)
  have 3: "ends_with_dot_zero ''2.0''" by (simp add: ends_with_dot_zero_def)
  from 1 2 3 show ?thesis by simp
qed

end
